theory Spec2Isabelle
  imports Complex_Main "HOL-Library.Log_Nat"
begin

section \<open>Spaces, arrays and errors\<close>

text \<open>
  The space descriptors come from gymnasium; the repository only inspects them.  A space
  is a tagged union, one constructor per gymnasium class.  Element values of arrays are
  modelled by the real number they denote, beside a tag for the element type; shapes are
  lists of extents.  An array of shape \<open>shp\<close> holds \<open>prod_list shp\<close> elements in
  row-major order.
\<close>

datatype dtype = Bool | UInt8 | Int8 | Int16 | Int32 | Int64 | Float16 | Float32 | Float64

text \<open>
  \<open>Box\<close>: gymnasium broadcasts \<open>low\<close> and \<open>high\<close> to the declared shape, so both
  are arrays of that shape.
\<close>

record box =
  box_shape :: "nat list"
  low :: "real list"
  high :: "real list"
  box_dtype :: dtype

text \<open>
  \<open>Discrete n start\<close>, \<open>MultiDiscrete nvec\<close> with a one-axis \<open>nvec\<close> (the counts),
  \<open>MultiBinary shape\<close>, \<open>Dict\<close> with its items in order; \<open>Tuple\<close>, \<open>Sequence\<close>,
  \<open>Text\<close> and \<open>Graph\<close> are the remaining gymnasium spaces.
\<close>

datatype space =
    Box box
  | Discrete nat int
  | MultiDiscrete "nat list"
  | MultiBinary "nat list"
  | Dict "(string \<times> space) list"
  | Tuple "space list"
  | Sequence space
  | Text nat nat
  | Graph space "space option"

text \<open>The three messages of the \<open>NotImplementedError\<close>s the code raises, each with the
  space it prints.\<close>

datatype message =
    ObservationSpaceNotSupported space
  | ActionSpaceNotSupported space
  | PreprocessingNotImplemented space

datatype error =
    NotImplementedError message
  | IndexError
  | TypeError
  | ValueError
  | RuntimeError
  | KeyError
  | GymError

text \<open>\<open>space.shape\<close>: \<open>None\<close> for the composite spaces.\<close>

fun space_shape :: "space \<Rightarrow> nat list option" where
  "space_shape (Box b) = Some (box_shape b)"
| "space_shape (Discrete n start) = Some []"
| "space_shape (MultiDiscrete nvec) = Some [length nvec]"
| "space_shape (MultiBinary shp) = Some shp"
| "space_shape _ = None"

section \<open>The space-description normaliser\<close>

text \<open>The result of \<open>process_observation_space\<close>: a shape, or a dict of results.\<close>

datatype obs_shape =
    Shape "nat list"
  | ShapeDict "(string \<times> obs_shape) list"

text \<open>
  \<open>process_items\<close> is the dict comprehension of the \<open>Dict\<close> branch: it processes the
  items in order and the first sub-space that raises ends it.
\<close>

fun process_observation_space :: "space \<Rightarrow> error + obs_shape"
  and process_items :: "(string \<times> space) list \<Rightarrow> error + (string \<times> obs_shape) list" where
  "process_observation_space (Box b) = Inr (Shape (box_shape b))"
| "process_observation_space (Discrete n start) = Inr (Shape [1])"
| "process_observation_space (MultiDiscrete nvec) = Inr (Shape [length nvec])"
| "process_observation_space (MultiBinary shp) = Inr (Shape shp)"
| "process_observation_space (Dict items) =
     (case process_items items of
        Inl e \<Rightarrow> Inl e
      | Inr d \<Rightarrow> Inr (ShapeDict d))"
| "process_observation_space (Tuple ss) =
     Inl (NotImplementedError (ObservationSpaceNotSupported (Tuple ss)))"
| "process_observation_space (Sequence s) =
     Inl (NotImplementedError (ObservationSpaceNotSupported (Sequence s)))"
| "process_observation_space (Text lo hi) =
     Inl (NotImplementedError (ObservationSpaceNotSupported (Text lo hi)))"
| "process_observation_space (Graph ns es) =
     Inl (NotImplementedError (ObservationSpaceNotSupported (Graph ns es)))"
| "process_items [] = Inr []"
| "process_items ((key, sub) # rest) =
     (case process_observation_space sub of
        Inl e \<Rightarrow> Inl e
      | Inr v \<Rightarrow>
          (case process_items rest of
             Inl e \<Rightarrow> Inl e
           | Inr d \<Rightarrow> Inr ((key, v) # d)))"

text \<open>
  \<open>a[0]\<close> on an array of shape \<open>shp\<close>: the sub-array at index 0 of the first axis,
  \<open>IndexError\<close> when the array has no axis or the first axis is empty.
\<close>

definition index0 :: "nat list \<Rightarrow> real list \<Rightarrow> error + (nat list \<times> real list)" where
  "index0 shp xs =
     (case shp of
        [] \<Rightarrow> Inl IndexError
      | d # ds \<Rightarrow> if d = 0 then Inl IndexError else Inr (ds, take (prod_list ds) xs))"

text \<open>
  The conversion of an array element to a Python float, a binary64 number.  An element
  of a floating type is kept.  An element of an integer type is rounded to the nearest
  number with a significand of 53 bits, a tie going to the even significand: of the
  \<open>bitlen m\<close> bits of the magnitude \<open>m\<close> the lowest \<open>k = bitlen m - 53\<close> are rounded
  away.
\<close>

definition round_float64 :: "int \<Rightarrow> int" where
  "round_float64 i =
     (let m = \<bar>i\<bar>; k = nat (bitlen m - 53); q = m div 2 ^ k; r = m mod 2 ^ k
      in sgn i * (if 2 ^ k < 2 * r \<or> (2 * r = 2 ^ k \<and> odd q) then q + 1 else q) * 2 ^ k)"

definition to_float64 :: "dtype \<Rightarrow> real \<Rightarrow> real" where
  "to_float64 dt x =
     (if dt \<in> set [Float16, Float32, Float64] then x else of_int (round_float64 \<lfloor>x\<rfloor>))"

text \<open>
  \<open>float(a)\<close> on an array of element type \<open>dt\<close>: the element of an array without
  axes, converted; \<open>TypeError\<close> for an array with an axis.
\<close>

definition py_float :: "dtype \<Rightarrow> nat list \<times> real list \<Rightarrow> error + real" where
  "py_float dt a =
     (if fst a = [] then (case snd a of [x] \<Rightarrow> Inr (to_float64 dt x) | _ \<Rightarrow> Inl TypeError)
      else Inl TypeError)"

definition float_first :: "dtype \<Rightarrow> nat list \<Rightarrow> real list \<Rightarrow> error + real" where
  "float_first dt shp xs = (case index0 shp xs of Inl e \<Rightarrow> Inl e | Inr a \<Rightarrow> py_float dt a)"

text \<open>The entries of \<open>action_range\<close>: Python ints for the discrete kinds, floats for a
  \<open>Box\<close>.\<close>

datatype pyval = PyInt int | PyFloat real

text \<open>
  \<open>process_action_space\<close> reads \<open>action_space.shape\<close> first and then dispatches on the
  class name, in the order \<open>Discrete\<close>, \<open>Box\<close>, \<open>MultiDiscrete\<close>, \<open>MultiBinary\<close>.
  It returns \<open>(action_shape, action_dim, action_type, action_range)\<close>.
\<close>

fun process_action_space ::
  "space \<Rightarrow> error + (nat list option \<times> int \<times> string \<times> pyval list)" where
  "process_action_space (Discrete n start) =
     Inr (space_shape (Discrete n start), int n, ''Discrete'', [PyInt 0, PyInt (int n - 1)])"
| "process_action_space (Box b) =
     (case float_first (box_dtype b) (box_shape b) (low b) of
        Inl e \<Rightarrow> Inl e
      | Inr lo \<Rightarrow>
          (case float_first (box_dtype b) (box_shape b) (high b) of
             Inl e \<Rightarrow> Inl e
           | Inr hi \<Rightarrow>
               Inr (space_shape (Box b), int (prod_list (box_shape b)), ''Box'',
                    [PyFloat lo, PyFloat hi])))"
| "process_action_space (MultiDiscrete nvec) =
     (case nvec of
        [] \<Rightarrow> Inl IndexError
      | c # _ \<Rightarrow>
          Inr (space_shape (MultiDiscrete nvec), int (length nvec), ''MultiDiscrete'',
               [PyInt 0, PyInt (int c - 1)]))"
| "process_action_space (MultiBinary shp) =
     (case shp of
        [] \<Rightarrow> Inl IndexError
      | d # _ \<Rightarrow> Inr (space_shape (MultiBinary shp), int d, ''MultiBinary'', [PyInt 0, PyInt 1]))"
| "process_action_space action_space =
     Inl (NotImplementedError (ActionSpaceNotSupported action_space))"

section \<open>The image-space classifier\<close>

text \<open>
  \<open>np.argmin\<close> of a sequence: the index of the first occurrence of the minimum,
  \<open>ValueError\<close> on an empty sequence.  \<open>argmin_from best_idx best i xs\<close> scans the
  rest \<open>xs\<close>, whose first element has index \<open>i\<close>.
\<close>

fun argmin_from :: "nat \<Rightarrow> nat \<Rightarrow> nat \<Rightarrow> nat list \<Rightarrow> nat" where
  "argmin_from best_idx best i [] = best_idx"
| "argmin_from best_idx best i (x # xs) =
     (if x < best then argmin_from i x (Suc i) xs
      else argmin_from best_idx best (Suc i) xs)"

definition np_argmin :: "nat list \<Rightarrow> error + nat" where
  "np_argmin xs = (case xs of [] \<Rightarrow> Inl ValueError | x # rest \<Rightarrow> Inr (argmin_from 0 x 1 rest))"

text \<open>
  \<open>is_image_space_channels_first\<close> returns its boolean together with the warnings it
  emits.
\<close>

definition channels_last_warning :: string where
  "channels_last_warning =
     ''Treating image space as channels-last, while second dimension was smallest of the three.''"

definition is_image_space_channels_first :: "box \<Rightarrow> error + (bool \<times> string list)" where
  "is_image_space_channels_first observation_space =
     (case np_argmin (box_shape observation_space) of
        Inl e \<Rightarrow> Inl e
      | Inr smallest_dimension \<Rightarrow>
          Inr (smallest_dimension = 0,
               if smallest_dimension = 1 then [channels_last_warning] else []))"

text \<open>
  \<open>is_image_space\<close>, with the warnings of the call it makes.  \<open>np.any(low != 0)\<close> is
  \<open>list_ex\<close> over the elements; \<open>shape[-1]\<close> is the last extent.
\<close>

definition is_image_space :: "space \<Rightarrow> bool \<Rightarrow> bool \<Rightarrow> error + (bool \<times> string list)" where
  "is_image_space observation_space check_channels normalized_image =
     (let check_dtype = \<not> normalized_image; check_bounds = \<not> normalized_image in
      case observation_space of
        Box b \<Rightarrow>
          if length (box_shape b) = 3 then
            if check_dtype \<and> box_dtype b \<noteq> UInt8 then Inr (False, [])
            else
              let incorrect_bounds =
                    (list_ex (\<lambda>x. x \<noteq> 0) (low b) \<or> list_ex (\<lambda>x. x \<noteq> 255) (high b)) in
              if check_bounds \<and> incorrect_bounds then Inr (False, [])
              else if \<not> check_channels then Inr (True, [])
              else
                (case is_image_space_channels_first b of
                   Inl e \<Rightarrow> Inl e
                 | Inr (channels_first, warned) \<Rightarrow>
                     let n_channels =
                           (if channels_first then box_shape b ! 0 else last (box_shape b)) in
                     Inr (n_channels \<in> set [1, 3, 4], warned))
          else Inr (False, [])
      | _ \<Rightarrow> Inr (False, []))"

section \<open>Arrays, tensors and the torch operations the code calls\<close>

text \<open>
  A numpy array has an element type, a shape and its elements in row-major order; a torch
  tensor has a device as well.  A conversion between element types keeps the value of an
  element (\<open>long\<close> truncates towards zero); the rounding of a conversion to a shorter
  float type is not modelled.
\<close>

record ndarray =
  dtype :: dtype
  shape :: "nat list"
  data :: "real list"

record tensor = ndarray +
  device :: string

text \<open>\<open>th.as_tensor(a, dtype=..., device=...)\<close>; without a device the tensor of a numpy
  array is on \<open>cpu\<close>.\<close>

definition th_as_tensor :: "ndarray \<Rightarrow> dtype option \<Rightarrow> string \<Rightarrow> tensor" where
  "th_as_tensor a dt dev =
     \<lparr>dtype = (case dt of None \<Rightarrow> dtype a | Some d \<Rightarrow> d), shape = shape a, data = data a,
      device = dev\<rparr>"

definition trunc :: "real \<Rightarrow> real" where
  "trunc x = (if 0 \<le> x then of_int \<lfloor>x\<rfloor> else of_int \<lceil>x\<rceil>)"

definition long :: "tensor \<Rightarrow> tensor" where
  "long t = t\<lparr>dtype := Int64, data := map trunc (data t)\<rparr>"

definition float :: "tensor \<Rightarrow> tensor" where
  "float t = t\<lparr>dtype := Float32\<rparr>"

text \<open>
  \<open>t / 255.0\<close>: true division by a Python float; an integer or boolean tensor becomes
  \<open>float32\<close>, a floating tensor keeps its type.
\<close>

definition th_div :: "tensor \<Rightarrow> real \<Rightarrow> tensor" where
  "th_div t c =
     t\<lparr>dtype := (if dtype t \<in> set [Float16, Float32, Float64] then dtype t else Float32),
       data := map (\<lambda>x. x / c) (data t)\<rparr>"

text \<open>
  \<open>F.one_hot(t, num_classes)\<close>, as torch computes it on the cpu: the tensor must be of
  type \<open>int64\<close>; an empty tensor needs a positive \<open>num_classes\<close>; otherwise no value may
  be negative, \<open>num_classes = -1\<close> stands for the largest value plus one, and any other
  \<open>num_classes\<close> must exceed every value.  The result has one more axis, of extent
  \<open>num_classes\<close>, and the row of a value \<open>v\<close> is 1 at index \<open>v\<close> and 0 elsewhere.
\<close>

definition one_hot_row :: "nat \<Rightarrow> real \<Rightarrow> real list" where
  "one_hot_row n v = map (\<lambda>j. if real j = v then 1 else 0) [0..<n]"

definition one_hot :: "tensor \<Rightarrow> int \<Rightarrow> error + tensor" where
  "one_hot t num_classes =
     (if dtype t \<noteq> Int64 then Inl RuntimeError
      else if data t = [] then
        (if num_classes \<le> 0 then Inl RuntimeError
         else Inr (t\<lparr>shape := shape t @ [nat num_classes]\<rparr>))
      else if list_ex (\<lambda>x. x < 0) (data t) then Inl RuntimeError
      else if num_classes \<noteq> - 1 \<and> list_ex (\<lambda>x. of_int num_classes \<le> x) (data t)
        then Inl RuntimeError
      else
        let n = (if num_classes = - 1 then nat (\<lfloor>Max (set (data t))\<rfloor> + 1) else nat num_classes)
        in Inr (t\<lparr>shape := shape t @ [n], data := concat (map (one_hot_row n) (data t))\<rparr>))"

text \<open>
  \<open>th.split(t, 1, dim=1)\<close>: one chunk of extent 1 per index of axis 1 (a single empty
  chunk when axis 1 is empty); \<open>IndexError\<close> when the tensor has fewer than two axes.
\<close>

definition th_split1 :: "tensor \<Rightarrow> error + tensor list" where
  "th_split1 t =
     (case shape t of
        d0 # d1 # rest \<Rightarrow>
          if d1 = 0 then Inr [t]
          else
            Inr (map (\<lambda>j. t\<lparr>shape := d0 # 1 # rest,
                            data := concat (map (\<lambda>b. take (prod_list rest)
                                                    (drop ((b * d1 + j) * prod_list rest) (data t)))
                                              [0..<d0])\<rparr>)
                   [0..<d1])
      | _ \<Rightarrow> Inl IndexError)"

text \<open>
  \<open>th.cat(ts, dim=-1)\<close> for tensors of one element type: the list must not be empty, no
  tensor may be without axes, and the shapes must agree on all axes but the last.  Row
  \<open>i\<close> of the result is the concatenation of the rows \<open>i\<close> of the tensors.
\<close>

definition th_cat_last :: "tensor list \<Rightarrow> error + tensor" where
  "th_cat_last ts =
     (case ts of
        [] \<Rightarrow> Inl RuntimeError
      | t # _ \<Rightarrow>
          if list_ex (\<lambda>u. shape u = []) ts then Inl RuntimeError
          else if list_ex (\<lambda>u. butlast (shape u) \<noteq> butlast (shape t)) ts then Inl RuntimeError
          else
            Inr (t\<lparr>shape := butlast (shape t) @ [sum_list (map (\<lambda>u. last (shape u)) ts)],
                   data := concat (map (\<lambda>i. concat (map (\<lambda>u. take (last (shape u))
                                                             (drop (i * last (shape u)) (data u))) ts))
                                     [0..<prod_list (butlast (shape t))])\<rparr>))"

text \<open>\<open>t.view(a, b)\<close> of a contiguous tensor: \<open>RuntimeError\<close> unless \<open>a * b\<close> is the number
  of elements.\<close>

definition view :: "tensor \<Rightarrow> nat \<Rightarrow> nat \<Rightarrow> error + tensor" where
  "view t a b =
     (if a * b = prod_list (shape t) then Inr (t\<lparr>shape := [a, b]\<rparr>) else Inl RuntimeError)"

section \<open>The preprocessing-function selector\<close>

text \<open>A list comprehension whose elements may raise: the first error ends it.\<close>

fun collect :: "(error + 'a) list \<Rightarrow> error + 'a list" where
  "collect [] = Inr []"
| "collect (Inl e # rs) = Inl e"
| "collect (Inr x # rs) = (case collect rs of Inl e \<Rightarrow> Inl e | Inr xs \<Rightarrow> Inr (x # xs))"

text \<open>
  \<open>_multi_discrete_to_one_hot\<close>, the inner function of \<open>get_preprocess_obs_fn\<close>, with the
  \<open>nvec\<close> of the space it captures.
\<close>

definition multi_discrete_to_one_hot :: "nat list \<Rightarrow> ndarray \<Rightarrow> error + tensor" where
  "multi_discrete_to_one_hot nvec obs_array =
     (let obs = th_as_tensor obs_array None ''cpu'' in
      case th_split1 (long obs) of
        Inl e \<Rightarrow> Inl e
      | Inr chunks \<Rightarrow>
          (case collect
                  (map (\<lambda>(idx, chunk).
                          if idx < length nvec then
                            (case one_hot (long chunk) (int (nvec ! idx)) of
                               Inl e \<Rightarrow> Inl e
                             | Inr t \<Rightarrow> Inr (float t))
                          else Inl IndexError)
                     (enumerate 0 chunks)) of
             Inl e \<Rightarrow> Inl e
           | Inr encoded \<Rightarrow>
               (case th_cat_last encoded of
                  Inl e \<Rightarrow> Inl e
                | Inr joined \<Rightarrow> view joined (shape obs ! 0) (sum_list nvec))))"

text \<open>
  \<open>get_preprocess_obs_fn\<close> returns a function from a raw observation batch to a tensor,
  or raises.  \<open>is_image_space\<close> is called with its default flags.
\<close>

fun get_preprocess_obs_fn :: "space \<Rightarrow> error + (ndarray \<Rightarrow> error + tensor)" where
  "get_preprocess_obs_fn (Box b) =
     (case is_image_space (Box b) False False of
        Inl e \<Rightarrow> Inl e
      | Inr (is_image, warned) \<Rightarrow>
          if is_image then Inr (\<lambda>obs. Inr (th_div (th_as_tensor obs None ''cpu'') 255))
          else Inr (\<lambda>obs. Inr (th_as_tensor obs (Some Float32) ''cpu'')))"
| "get_preprocess_obs_fn (Discrete n start) =
     Inr (\<lambda>obs. one_hot (long (th_as_tensor obs None ''cpu'')) (int n))"
| "get_preprocess_obs_fn (MultiDiscrete nvec) = Inr (multi_discrete_to_one_hot nvec)"
| "get_preprocess_obs_fn (MultiBinary shp) =
     Inr (\<lambda>obs. Inr (float (th_as_tensor obs None ''cpu'')))"
| "get_preprocess_obs_fn observation_space =
     Inl (NotImplementedError (PreprocessingNotImplemented observation_space))"

text \<open>
  \<open>sum(nvec)\<close> over an array of type \<open>int64\<close>: Python's \<open>sum\<close> starts from the int 0
  and adds the elements one by one; every addition is one of \<open>int64\<close> values and wraps
  around.
\<close>

definition wrap_int64 :: "int \<Rightarrow> int" where
  "wrap_int64 x = (x + 2 ^ 63) mod 2 ^ 64 - 2 ^ 63"

definition py_sum_int64 :: "nat list \<Rightarrow> int" where
  "py_sum_int64 xs = fold (\<lambda>x acc. wrap_int64 (acc + int x)) xs 0"

text \<open>
  \<open>get_flattened_obs_dim\<close>; gymnasium's \<open>flatdim\<close>, which it calls for every space but
  a \<open>MultiDiscrete\<close>, is a parameter.
\<close>

fun get_flattened_obs_dim :: "(space \<Rightarrow> int) \<Rightarrow> space \<Rightarrow> int" where
  "get_flattened_obs_dim flatdim (MultiDiscrete nvec) = py_sum_int64 nvec"
| "get_flattened_obs_dim flatdim observation_space = flatdim observation_space"

section \<open>The batched tensor adapter\<close>

text \<open>
  \<open>TorchVecEnvWrapper\<close> holds the wrapped vectorised environment, the device and the
  number of environments.  The wrapped environment is an object of gymnasium:
  its type is a parameter, and its \<open>step\<close> is a parameter of \<open>step\<close> below.
\<close>

record 'e torch_vec_env_wrapper =
  env :: 'e
  env_device :: string
  num_envs :: nat

text \<open>
  \<open>t.squeeze(d)\<close> removes axis \<open>d\<close> when its extent is 1, and \<open>t.unsqueeze(d)\<close> inserts
  an axis of extent 1 at \<open>d\<close>; both raise \<open>IndexError\<close> when \<open>d\<close> is out of range.
  \<open>t.cpu().numpy()\<close> is the array of the tensor.
\<close>

definition squeeze :: "tensor \<Rightarrow> nat \<Rightarrow> error + tensor" where
  "squeeze t d =
     (if length (shape t) \<le> d then Inl IndexError
      else if shape t ! d = 1 then Inr (t\<lparr>shape := take d (shape t) @ drop (Suc d) (shape t)\<rparr>)
      else Inr t)"

definition unsqueeze :: "tensor \<Rightarrow> nat \<Rightarrow> error + tensor" where
  "unsqueeze t d =
     (if length (shape t) < d then Inl IndexError
      else Inr (t\<lparr>shape := take d (shape t) @ [1] @ drop d (shape t)\<rparr>))"

definition numpy :: "tensor \<Rightarrow> ndarray" where
  "numpy t = \<lparr>dtype = dtype t, shape = shape t, data = data t\<rparr>"

text \<open>
  \<open>th.as_tensor([[1.0] if _ else [0.0] for _ in flags], dtype=th.float32, device=dev)\<close>:
  one row of one entry per flag (the tensor of an empty list has the shape \<open>(0,)\<close>).
\<close>

definition flags_tensor :: "bool list \<Rightarrow> string \<Rightarrow> tensor" where
  "flags_tensor flags dev =
     \<lparr>dtype = Float32,
      shape = (if flags = [] then [0] else [length flags, 1]),
      data = map (\<lambda>f. if f then 1 else 0) flags,
      device = dev\<rparr>"

text \<open>
  \<open>TorchVecEnvWrapper.step\<close>.  \<open>env_step\<close> is the wrapped environment's \<open>step\<close>: from
  its state and the action array it returns the observation, the rewards, the
  \<open>terminated\<close> and \<open>truncated\<close> flags, the info and its new state, or raises.
\<close>

definition step ::
  "('e \<Rightarrow> ndarray \<Rightarrow> error + (ndarray \<times> ndarray \<times> bool list \<times> bool list \<times> 'i \<times> 'e)) \<Rightarrow>
   'e torch_vec_env_wrapper \<Rightarrow> tensor \<Rightarrow>
   error + ((tensor \<times> tensor \<times> tensor \<times> tensor \<times> 'i) \<times> 'e torch_vec_env_wrapper)" where
  "step env_step self action =
     (case squeeze action 1 of
        Inl e \<Rightarrow> Inl e
      | Inr a \<Rightarrow>
          (case env_step (env self) (numpy a) of
             Inl e \<Rightarrow> Inl e
           | Inr (obs, reward, terminated, truncated, info, env') \<Rightarrow>
               (case unsqueeze (th_as_tensor reward (Some Float32) (env_device self)) 1 of
                  Inl e \<Rightarrow> Inl e
                | Inr reward_tensor \<Rightarrow>
                    Inr ((th_as_tensor obs None (env_device self),
                          reward_tensor,
                          flags_tensor terminated (env_device self),
                          flags_tensor truncated (env_device self),
                          info),
                         self\<lparr>env := env'\<rparr>))))"

section \<open>The environment factory\<close>

text \<open>
  An environment, as far as the factory reads and writes it: its observation space and
  its action space, and the seed last given to each (none at first).
\<close>

record gym_env =
  env_observation_space :: space
  env_action_space :: space
  observation_space_seed :: "int option"
  action_space_seed :: "int option"

text \<open>
  The calls into gymnasium, minigrid, \<open>hsuanwu.env.utils\<close> and torch are parameters,
  and each of them may raise: \<open>gym.make(env_id)\<close>, \<open>FullyObsWrapper(env)\<close>,
  \<open>FrameStack(env, k=frame_stack)\<close>, \<open>FlatObsWrapper(env)\<close>,
  \<open>gym.spaces.Box(low=0, high=255, shape=..., dtype=...)\<close> and \<open>th.device(device)\<close>.
\<close>

record external_api =
  gym_make :: "string \<Rightarrow> error + gym_env"
  fully_obs_wrapper :: "gym_env \<Rightarrow> error + gym_env"
  frame_stack_wrapper :: "gym_env \<Rightarrow> int \<Rightarrow> error + gym_env"
  flat_obs_wrapper :: "gym_env \<Rightarrow> error + gym_env"
  gym_box :: "nat list \<Rightarrow> dtype option \<Rightarrow> error + space"
  th_device :: "string \<Rightarrow> error + string"

text \<open>
  \<open>space[key]\<close> with a string key: the sub-space of a \<open>Dict\<close>, \<open>KeyError\<close> when the key
  is missing; a \<open>TypeError\<close> on every other space.  \<open>space.dtype\<close>: \<open>None\<close> for the
  composite spaces.
\<close>

fun space_getitem :: "space \<Rightarrow> string \<Rightarrow> error + space" where
  "space_getitem (Dict items) key =
     (case map_of items key of None \<Rightarrow> Inl KeyError | Some s \<Rightarrow> Inr s)"
| "space_getitem _ key = Inl TypeError"

fun space_dtype :: "space \<Rightarrow> dtype option" where
  "space_dtype (Box b) = Some (box_dtype b)"
| "space_dtype (Discrete n start) = Some Int64"
| "space_dtype (MultiDiscrete nvec) = Some Int64"
| "space_dtype (MultiBinary shp) = Some Int8"
| "space_dtype _ = None"

text \<open>
  \<open>Minigrid2Image.__init__\<close>: the observation space becomes a new \<open>Box\<close> with the axes
  of the \<open>"image"\<close> sub-space in the order 2, 0, 1.  Reading \<open>shape[2]\<close> raises
  \<open>TypeError\<close> when the shape is \<open>None\<close> and \<open>IndexError\<close> when it has fewer than
  three axes.  The new space has not been seeded.
\<close>

definition minigrid2image_init :: "external_api \<Rightarrow> gym_env \<Rightarrow> error + gym_env" where
  "minigrid2image_init api inner =
     (case space_getitem (env_observation_space inner) ''image'' of
        Inl e \<Rightarrow> Inl e
      | Inr image_space \<Rightarrow>
          (case space_shape image_space of
             None \<Rightarrow> Inl TypeError
           | Some shp \<Rightarrow>
               if length shp < 3 then Inl IndexError
               else
                 (case gym_box api [shp ! 2, shp ! 0, shp ! 1] (space_dtype image_space) of
                    Inl e \<Rightarrow> Inl e
                  | Inr new_space \<Rightarrow>
                      Inr (inner\<lparr>env_observation_space := new_space,
                                 observation_space_seed := None\<rparr>))))"

text \<open>\<open>space.seed(seed)\<close> with a Python int: gymnasium refuses a negative seed.\<close>

definition seed_space :: "int \<Rightarrow> error + int" where
  "seed_space seed = (if seed < 0 then Inl GymError else Inr seed)"

text \<open>
  \<open>make_env\<close> of \<open>make_minigrid_env\<close>, with the \<open>fully_observable\<close> and \<open>frame_stack\<close>
  it captures; it returns the thunk that builds one environment: \<open>gym.make\<close>, the
  wrappers, then the seed for the action space and for the observation space.
\<close>

definition make_env ::
  "external_api \<Rightarrow> bool \<Rightarrow> int \<Rightarrow> string \<Rightarrow> int \<Rightarrow> (unit \<Rightarrow> error + gym_env)" where
  "make_env api fully_observable frame_stack env_id seed =
     (\<lambda>_. case gym_make api env_id of
             Inl e \<Rightarrow> Inl e
           | Inr made \<Rightarrow>
               (case (if fully_observable then
                        (case fully_obs_wrapper api made of
                           Inl e \<Rightarrow> Inl e
                         | Inr full \<Rightarrow>
                             (case minigrid2image_init api full of
                                Inl e \<Rightarrow> Inl e
                              | Inr adapted \<Rightarrow> frame_stack_wrapper api adapted frame_stack))
                      else flat_obs_wrapper api made) of
                  Inl e \<Rightarrow> Inl e
                | Inr wrapped \<Rightarrow>
                    (case seed_space seed of
                       Inl e \<Rightarrow> Inl e
                     | Inr action_seed \<Rightarrow>
                         (case seed_space seed of
                            Inl e \<Rightarrow> Inl e
                          | Inr observation_seed \<Rightarrow>
                              Inr (wrapped\<lparr>action_space_seed := Some action_seed,
                                           observation_space_seed := Some observation_seed\<rparr>)))))"

text \<open>
  \<open>SyncVectorEnv(env_fns)\<close> calls the thunks in order, the first one that raises ending
  the construction, and then reads \<open>envs[0]\<close>, so it raises \<open>IndexError\<close> on an empty
  list.  \<open>RecordEpisodeStatistics\<close> wraps it and passes the attribute \<open>envs\<close> through.
\<close>

datatype vec_env =
    SyncVectorEnv "gym_env list"
  | RecordEpisodeStatistics vec_env

definition sync_vector_env :: "(unit \<Rightarrow> error + gym_env) list \<Rightarrow> error + vec_env" where
  "sync_vector_env env_fns =
     (case collect (map (\<lambda>env_fn. env_fn ()) env_fns) of
        Inl e \<Rightarrow> Inl e
      | Inr built \<Rightarrow> if built = [] then Inl IndexError else Inr (SyncVectorEnv built))"

fun envs :: "vec_env \<Rightarrow> gym_env list" where
  "envs (SyncVectorEnv es) = es"
| "envs (RecordEpisodeStatistics v) = envs v"

text \<open>\<open>TorchVecEnvWrapper.__init__\<close>.\<close>

definition torch_vec_env_wrapper_init ::
  "external_api \<Rightarrow> vec_env \<Rightarrow> string \<Rightarrow> error + vec_env torch_vec_env_wrapper" where
  "torch_vec_env_wrapper_init api e dev =
     (case th_device api dev of
        Inl err \<Rightarrow> Inl err
      | Inr d \<Rightarrow> Inr \<lparr>env = e, env_device = d, num_envs = length (envs e)\<rparr>)"

text \<open>\<open>range(n)\<close>, empty for a negative \<open>n\<close>.\<close>

definition py_range :: "int \<Rightarrow> int list" where
  "py_range n = map int [0..<nat n]"

definition make_minigrid_env ::
  "external_api \<Rightarrow> string \<Rightarrow> int \<Rightarrow> bool \<Rightarrow> int \<Rightarrow> int \<Rightarrow> string \<Rightarrow>
   error + vec_env torch_vec_env_wrapper" where
  "make_minigrid_env api env_id n_envs fully_observable seed frame_stack dev =
     (let env_fns = map (\<lambda>i. make_env api fully_observable frame_stack env_id (seed + i))
                      (py_range n_envs)
      in case sync_vector_env env_fns of
           Inl e \<Rightarrow> Inl e
         | Inr v \<Rightarrow> torch_vec_env_wrapper_init api (RecordEpisodeStatistics v) dev)"

text \<open>
  A sample of the libraries, for concrete instances: one registered id, whose
  environment has an image of shape \<open>(7, 7, 3)\<close>; wrappers that keep the spaces they
  get; a \<open>Box\<close> constructor for a given element type; two devices.
\<close>

definition sample_env :: gym_env where
  "sample_env =
     \<lparr>env_observation_space =
        Dict [(''image'', Box \<lparr>box_shape = [7, 7, 3], low = replicate 147 0,
                                high = replicate 147 255, box_dtype = UInt8\<rparr>),
              (''direction'', Discrete 4 0)],
      env_action_space = Discrete 7 0,
      observation_space_seed = None,
      action_space_seed = None\<rparr>"

definition sample_api :: external_api where
  "sample_api =
     \<lparr>gym_make = (\<lambda>env_id. if env_id = ''MiniGrid-Empty-5x5-v0'' then Inr sample_env
                            else Inl GymError),
      fully_obs_wrapper = Inr,
      frame_stack_wrapper = (\<lambda>e k. Inr e),
      flat_obs_wrapper = Inr,
      gym_box = (\<lambda>shp dt. case dt of
                   None \<Rightarrow> Inl TypeError
                 | Some d \<Rightarrow> Inr (Box \<lparr>box_shape = shp, low = replicate (prod_list shp) 0,
                                         high = replicate (prod_list shp) 255, box_dtype = d\<rparr>)),
      th_device = (\<lambda>dev. if dev \<in> set [''cpu'', ''cuda''] then Inr dev else Inl RuntimeError)\<rparr>"

section \<open>Properties of the space-description normaliser\<close>

lemma process_items_iff:
  "process_items items = Inr d \<longleftrightarrow>
     list_all2 (\<lambda>kv kr. fst kr = fst kv \<and> process_observation_space (snd kv) = Inr (snd kr)) items d"
proof (induction items arbitrary: d)
  case Nil
  show ?case by auto
next
  case (Cons kv items)
  obtain k s where kv: "kv = (k, s)" by (cases kv)
  show ?case
  proof (cases "process_observation_space s")
    case (Inl e)
    then show ?thesis by (auto simp: kv list_all2_Cons1)
  next
    case (Inr v)
    note v = this
    show ?thesis
    proof (cases "process_items items")
      case (Inl e)
      with Cons.IH v show ?thesis by (auto simp: kv list_all2_Cons1)
    next
      case (Inr d')
      with Cons.IH v show ?thesis by (auto simp: kv list_all2_Cons1)
    qed
  qed
qed

lemma round_float64_small:
  assumes "\<bar>i\<bar> < 2 ^ 53"
  shows "round_float64 i = i"
proof -
  have "bitlen \<bar>i\<bar> \<le> 53"
  proof (rule ccontr)
    assume "\<not> bitlen \<bar>i\<bar> \<le> 53"
    then have b: "54 \<le> bitlen \<bar>i\<bar>" by simp
    then have pos: "0 < \<bar>i\<bar>" using bitlen_eq_zero_iff[of "\<bar>i\<bar>"] by linarith
    have "(2::int) ^ 53 \<le> 2 ^ nat (bitlen \<bar>i\<bar> - 1)"
      using b by (intro power_increasing) simp_all
    also have "\<dots> \<le> \<bar>i\<bar>" using bitlen_bounds[OF pos] by simp
    finally show False using assms by simp
  qed
  then have "nat (bitlen \<bar>i\<bar> - 53) = 0" by simp
  moreover have "sgn i * \<bar>i\<bar> = i" by (simp add: sgn_mult_abs)
  ultimately show ?thesis by (simp add: round_float64_def Let_def)
qed

text \<open>
  Where \<open>process_action_space\<close> returns: for \<open>Discrete(n)\<close>; for a \<open>Box\<close> of one
  non-empty axis, with the bounds of the first component converted to Python floats; for
  \<open>MultiDiscrete(counts)\<close> with non-empty counts; for a \<open>MultiBinary\<close> with a non-empty
  shape.
\<close>

lemma process_action_space_vector_table:
  "process_action_space (Discrete n start) =
     Inr (Some [], int n, ''Discrete'', [PyInt 0, PyInt (int n - 1)])
   \<and> (box_shape b = [d] \<and> 0 < d \<and> low b = lo # los \<and> high b = hi # his \<longrightarrow>
        process_action_space (Box b) =
          Inr (Some [d], int (prod_list (box_shape b)), ''Box'',
               [PyFloat (to_float64 (box_dtype b) lo), PyFloat (to_float64 (box_dtype b) hi)]))
   \<and> (counts = c # cs \<longrightarrow>
        process_action_space (MultiDiscrete counts) =
          Inr (Some [length counts], int (length counts), ''MultiDiscrete'',
               [PyInt 0, PyInt (int c - 1)]))
   \<and> (shp = m # ms \<longrightarrow>
        process_action_space (MultiBinary shp) =
          Inr (Some shp, int m, ''MultiBinary'', [PyInt 0, PyInt 1]))"
  by (auto simp: float_first_def index0_def py_float_def)

lemma process_action_space_vector_example:
  "process_action_space
     (Box \<lparr>box_shape = [3], low = [-1, -2, -3], high = [1, 2, 3], box_dtype = Float32\<rparr>) =
   Inr (Some [3], 3, ''Box'', [PyFloat (-1), PyFloat 1])"
  by (simp add: float_first_def index0_def py_float_def to_float64_def)

lemma process_action_space_int64_example:
  "process_action_space
     (Box \<lparr>box_shape = [1], low = [0], high = [9007199254740993], box_dtype = Int64\<rparr>) =
   Inr (Some [1], 1, ''Box'', [PyFloat 0, PyFloat 9007199254740992])"
proof -
  have "round_float64 9007199254740993 = 9007199254740992" by code_simp
  moreover have "round_float64 0 = 0" by code_simp
  ultimately show ?thesis
    by (simp add: float_first_def index0_def py_float_def to_float64_def)
qed

text \<open>
  Claim C1.  The claim gives, for every supported action space, the 4-tuple of the
  dispatch table; for a \<open>Box\<close> the dimension is the product of the declared shape and
  the range the bounds of the first component.  On the \<open>Box\<close> of shape \<open>(2, 2)\<close> with
  bounds 0 and 1 the code computes the dimension 4 and then raises: \<open>low[0]\<close> is a row
  of two numbers and \<open>float\<close> of it is a \<open>TypeError\<close>.  No 4-tuple is returned.
\<close>

theorem process_action_space_box_matrix_raises:
  "process_action_space
     (Box \<lparr>box_shape = [2, 2], low = [0, 0, 0, 0], high = [1, 1, 1, 1], box_dtype = Float32\<rparr>) =
   Inl TypeError"
  by (simp add: float_first_def index0_def py_float_def)

text \<open>
  Claim C2.  \<open>process_observation_space\<close> returns the declared shape of a \<open>Box\<close>, the
  shape \<open>(1,)\<close> for a \<open>Discrete\<close> space, \<open>(len(counts),)\<close> for \<open>MultiDiscrete(counts)\<close>,
  the declared shape of a \<open>MultiBinary\<close> space, and for a \<open>Dict\<close> exactly the dict that
  maps each key, in order, to the result of processing its sub-space.
\<close>

theorem process_observation_space_table:
  "process_observation_space (Box b) = Inr (Shape (box_shape b))
   \<and> process_observation_space (Discrete n start) = Inr (Shape [1])
   \<and> process_observation_space (MultiDiscrete counts) = Inr (Shape [length counts])
   \<and> process_observation_space (MultiBinary shp) = Inr (Shape shp)
   \<and> (process_observation_space (Dict items) = Inr r \<longleftrightarrow>
        (\<exists>d. r = ShapeDict d \<and>
           list_all2 (\<lambda>kv kr. fst kr = fst kv \<and> process_observation_space (snd kv) = Inr (snd kr))
             items d))"
  by (auto simp: process_items_iff[symmetric] split: sum.splits)

theorem process_observation_space_table_witness:
  "process_observation_space (Box \<lparr>box_shape = [7, 7, 3], low = replicate 147 0, high = replicate 147 255, box_dtype = UInt8\<rparr>) = Inr (Shape [7, 7, 3])
   \<and> process_observation_space (Discrete 5 0) = Inr (Shape [1])
   \<and> process_observation_space (MultiDiscrete [3, 4, 5]) = Inr (Shape [3])
   \<and> process_observation_space (MultiBinary [2, 6]) = Inr (Shape [2, 6])
   \<and> process_observation_space
        (Dict [(''direction'', Discrete 4 0), (''flags'', Dict [(''bits'', MultiBinary [8])])]) =
      Inr (ShapeDict [(''direction'', Shape [1]), (''flags'', ShapeDict [(''bits'', Shape [8])])])"
  using process_observation_space_table
    [of "\<lparr>box_shape = [7, 7, 3], low = replicate 147 0, high = replicate 147 255, box_dtype = UInt8\<rparr>"
        5 0 "[3, 4, 5]" "[2, 6]"
        "[(''direction'', Discrete 4 0), (''flags'', Dict [(''bits'', MultiBinary [8])])]"
        "ShapeDict [(''direction'', Shape [1]), (''flags'', ShapeDict [(''bits'', Shape [8])])]"]
  by simp

section \<open>Unsupported spaces\<close>

text \<open>
  Claim C3.  For a space of any kind other than \<open>Box\<close>, \<open>Discrete\<close>, \<open>MultiDiscrete\<close>
  and \<open>MultiBinary\<close>, \<open>process_action_space\<close> raises the "action space is not
  supported" error and \<open>get_preprocess_obs_fn\<close> the "preprocessing not implemented"
  error, and, unless the space is a \<open>Dict\<close>, \<open>process_observation_space\<close> raises the
  "observation space is not supported" error; none of them returns a value.
\<close>

theorem unsupported_space_raises:
  "(\<forall>b. s \<noteq> Box b) \<and> (\<forall>n start. s \<noteq> Discrete n start) \<and> (\<forall>nvec. s \<noteq> MultiDiscrete nvec)
     \<and> (\<forall>shp. s \<noteq> MultiBinary shp) \<longrightarrow>
   process_action_space s = Inl (NotImplementedError (ActionSpaceNotSupported s))
   \<and> get_preprocess_obs_fn s = Inl (NotImplementedError (PreprocessingNotImplemented s))
   \<and> ((\<forall>items. s \<noteq> Dict items) \<longrightarrow>
        process_observation_space s = Inl (NotImplementedError (ObservationSpaceNotSupported s)))"
  by (cases s) simp_all

theorem unsupported_space_raises_witness:
  "process_action_space (Tuple [Discrete 2 0, Discrete 3 0]) =
     Inl (NotImplementedError (ActionSpaceNotSupported (Tuple [Discrete 2 0, Discrete 3 0])))
   \<and> get_preprocess_obs_fn (Tuple [Discrete 2 0, Discrete 3 0]) =
     Inl (NotImplementedError (PreprocessingNotImplemented (Tuple [Discrete 2 0, Discrete 3 0])))
   \<and> process_observation_space (Tuple [Discrete 2 0, Discrete 3 0]) =
     Inl (NotImplementedError (ObservationSpaceNotSupported (Tuple [Discrete 2 0, Discrete 3 0])))
   \<and> process_action_space (Dict [(''a'', Discrete 2 0)]) =
     Inl (NotImplementedError (ActionSpaceNotSupported (Dict [(''a'', Discrete 2 0)])))
   \<and> get_preprocess_obs_fn (Dict [(''a'', Discrete 2 0)]) =
     Inl (NotImplementedError (PreprocessingNotImplemented (Dict [(''a'', Discrete 2 0)])))"
  using unsupported_space_raises [of "Tuple [Discrete 2 0, Discrete 3 0]"]
    unsupported_space_raises [of "Dict [(''a'', Discrete 2 0)]"]
  by simp

section \<open>Properties of the image-space classifier\<close>

lemma np_argmin_3:
  "np_argmin [c, h, w] =
     Inr (if c \<le> h \<and> c \<le> w then 0 else if h < c \<and> h \<le> w then 1 else 2)"
  by (auto simp: np_argmin_def)

lemma channels_first_total_3:
  "length (box_shape b) = 3 \<Longrightarrow> \<exists>cf wn. is_image_space_channels_first b = Inr (cf, wn)"
  by (cases "box_shape b") (auto simp: is_image_space_channels_first_def np_argmin_def)

text \<open>
  Claim C5.  On a space of three axes \<open>(c, h, w)\<close>, \<open>is_image_space_channels_first\<close>
  returns true exactly when axis 0 has the smallest extent (\<open>c \<le> h\<close> and \<open>c \<le> w\<close>);
  when the first smallest axis is the middle one it emits the warning about the layout
  and returns false.
\<close>

theorem is_image_space_channels_first_smallest:
  "box_shape b = [c, h, w] \<longrightarrow>
     is_image_space_channels_first b =
       Inr (c \<le> h \<and> c \<le> w, if h < c \<and> h \<le> w then [channels_last_warning] else [])"
  by (auto simp: is_image_space_channels_first_def np_argmin_3)

theorem is_image_space_channels_first_smallest_witness:
  "is_image_space_channels_first
      \<lparr>box_shape = [3, 84, 84], low = replicate 21168 0, high = replicate 21168 255, box_dtype = UInt8\<rparr> =
     Inr (True, [])
   \<and> is_image_space_channels_first
      \<lparr>box_shape = [84, 84, 3], low = replicate 21168 0, high = replicate 21168 255, box_dtype = UInt8\<rparr> =
     Inr (False, [])
   \<and> is_image_space_channels_first
      \<lparr>box_shape = [84, 3, 84], low = replicate 21168 0, high = replicate 21168 255, box_dtype = UInt8\<rparr> =
     Inr (False, [channels_last_warning])"
  using is_image_space_channels_first_smallest
      [of "\<lparr>box_shape = [3, 84, 84], low = replicate 21168 0, high = replicate 21168 255, box_dtype = UInt8\<rparr>" 3 84 84]
    is_image_space_channels_first_smallest
      [of "\<lparr>box_shape = [84, 84, 3], low = replicate 21168 0, high = replicate 21168 255, box_dtype = UInt8\<rparr>" 84 84 3]
    is_image_space_channels_first_smallest
      [of "\<lparr>box_shape = [84, 3, 84], low = replicate 21168 0, high = replicate 21168 255, box_dtype = UInt8\<rparr>" 84 3 84]
  by simp

text \<open>
  Claim C4.  \<open>is_image_space\<close> always returns, and it returns true exactly when the
  space is a \<open>Box\<close> of three axes, and (unless \<open>normalized_image\<close>) its dtype is
  \<open>uint8\<close> and every lower bound is 0 and every upper bound 255, and (when
  \<open>check_channels\<close>) the channel count, axis 0 when the space is channels-first and
  the last axis otherwise, is 1, 3 or 4.  It returns true for the shape \<open>(3, 84, 84)\<close>
  with dtype \<open>uint8\<close> and bounds 0 and 255, and false for the same space with a float
  dtype.
\<close>

theorem is_image_space_iff:
  "(\<exists>r wn. is_image_space s check_channels normalized_image = Inr (r, wn) \<and>
      (r \<longleftrightarrow>
         (\<exists>b. s = Box b \<and> length (box_shape b) = 3
            \<and> (normalized_image \<or>
                 (box_dtype b = UInt8 \<and> list_all (\<lambda>x. x = 0) (low b)
                  \<and> list_all (\<lambda>x. x = 255) (high b)))
            \<and> (check_channels \<longrightarrow>
                 (\<exists>cf wn'. is_image_space_channels_first b = Inr (cf, wn')
                    \<and> (if cf then box_shape b ! 0 else last (box_shape b)) \<in> {1, 3, 4})))))
   \<and> is_image_space
        (Box \<lparr>box_shape = [3, 84, 84], low = replicate (3 * 84 * 84) 0,
              high = replicate (3 * 84 * 84) 255, box_dtype = UInt8\<rparr>) check_channels False =
      Inr (True, [])
   \<and> (dt \<in> {Float16, Float32, Float64} \<longrightarrow>
        is_image_space
          (Box \<lparr>box_shape = [3, 84, 84], low = replicate (3 * 84 * 84) 0,
                high = replicate (3 * 84 * 84) 255, box_dtype = dt\<rparr>) check_channels False =
        Inr (False, []))"
proof (intro conjI)
  show "\<exists>r wn. is_image_space s check_channels normalized_image = Inr (r, wn) \<and>
      (r \<longleftrightarrow>
         (\<exists>b. s = Box b \<and> length (box_shape b) = 3
            \<and> (normalized_image \<or>
                 (box_dtype b = UInt8 \<and> list_all (\<lambda>x. x = 0) (low b)
                  \<and> list_all (\<lambda>x. x = 255) (high b)))
            \<and> (check_channels \<longrightarrow>
                 (\<exists>cf wn'. is_image_space_channels_first b = Inr (cf, wn')
                    \<and> (if cf then box_shape b ! 0 else last (box_shape b)) \<in> {1, 3, 4}))))"
  proof (cases s)
    case (Box b)
    show ?thesis
    proof (cases "length (box_shape b) = 3")
      case True
      from channels_first_total_3[OF True] obtain cf wn
        where cf: "is_image_space_channels_first b = Inr (cf, wn)" by blast
      show ?thesis
        using True cf
        by (auto simp: Box is_image_space_def Let_def list_ex_iff list_all_iff)
    next
      case False
      then show ?thesis by (auto simp: Box is_image_space_def)
    qed
  qed (auto simp: is_image_space_def)
next
  show "is_image_space
        (Box \<lparr>box_shape = [3, 84, 84], low = replicate (3 * 84 * 84) 0,
              high = replicate (3 * 84 * 84) 255, box_dtype = UInt8\<rparr>) check_channels False =
      Inr (True, [])"
    by (simp add: is_image_space_def list_ex_iff is_image_space_channels_first_def np_argmin_def)
next
  show "dt \<in> {Float16, Float32, Float64} \<longrightarrow>
        is_image_space
          (Box \<lparr>box_shape = [3, 84, 84], low = replicate (3 * 84 * 84) 0,
                high = replicate (3 * 84 * 84) 255, box_dtype = dt\<rparr>) check_channels False =
        Inr (False, [])"
    by (auto simp: is_image_space_def)
qed

theorem is_image_space_iff_witness:
  "(\<exists>wn. is_image_space
     (Box \<lparr>box_shape = [3, 84, 84], low = replicate 21168 0, high = replicate 21168 255,
           box_dtype = UInt8\<rparr>) True False = Inr (True, wn))
   \<and> is_image_space
     (Box \<lparr>box_shape = [3, 84, 84], low = replicate 21168 0, high = replicate 21168 255,
           box_dtype = Float32\<rparr>) True False = Inr (False, [])"
  using is_image_space_iff
    [of "Box \<lparr>box_shape = [3, 84, 84], low = replicate 21168 0, high = replicate 21168 255,
           box_dtype = UInt8\<rparr>" True False Float32]
  by (simp add: list_all_iff is_image_space_channels_first_def np_argmin_def)

section \<open>Properties of the preprocessing functions\<close>

lemma one_hot_row_length: "length (one_hot_row n v) = n"
  by (simp add: one_hot_row_def)

lemma one_hot_row_nth: "j < n \<Longrightarrow> one_hot_row n v ! j = (if real j = v then 1 else 0)"
  by (simp add: one_hot_row_def)

lemma filter_eq_upt: "k < n \<Longrightarrow> filter (\<lambda>j. j = k) [0..<n] = [k]"
proof (induction n)
  case 0
  then show ?case by simp
next
  case (Suc n)
  show ?case
  proof (cases "k = n")
    case True
    have "filter (\<lambda>j. j = n) [0..<n] = []" by (simp add: filter_empty_conv)
    then show ?thesis using True by simp
  next
    case False
    with Suc have "filter (\<lambda>j. j = k) [0..<n] = [k]" by simp
    with False show ?thesis by simp
  qed
qed

lemma one_hot_row_count:
  assumes "k < n"
  shows "length (filter (\<lambda>y. y = 1) (one_hot_row n (real k))) = 1"
proof -
  have "filter (\<lambda>y. y = 1) (one_hot_row n (real k)) =
        map (\<lambda>j. if real j = real k then 1 else 0) (filter (\<lambda>j. j = k) [0..<n])"
    by (simp add: one_hot_row_def filter_map comp_def)
  with assms show ?thesis by (simp add: filter_eq_upt)
qed

lemma one_hot_in_range:
  assumes "dtype t = Int64" "0 < n" "list_all (\<lambda>x. 0 \<le> x \<and> x < real n) (data t)"
  shows "one_hot t (int n) =
           Inr (t\<lparr>shape := shape t @ [n], data := concat (map (one_hot_row n) (data t))\<rparr>)"
proof -
  have a: "\<not> list_ex (\<lambda>x. x < 0) (data t)"
    using assms(3) by (auto simp: list_ex_iff list_all_iff)
  have b: "\<not> list_ex (\<lambda>x. of_int (int n) \<le> x) (data t)"
    using assms(3) by (auto simp: list_ex_iff list_all_iff)
  show ?thesis
    using assms(1,2) a b by (auto simp: one_hot_def)
qed

text \<open>
  Claim C6.  For a \<open>Discrete(n)\<close> space, \<open>get_preprocess_obs_fn\<close> returns a function
  that one-hot encodes a batch into \<open>n\<close> classes: on a batch whose values are class
  indices below \<open>n\<close> it returns the batch with one more axis of extent \<open>n\<close>, the row of
  a value \<open>k\<close> having width \<open>n\<close>, exactly one 1, at index \<open>k\<close>, and 0 elsewhere.  (The
  tensor is of type \<open>int64\<close>: the code does not convert it to a float type.)  On a
  \<open>Discrete(5)\<close> space the values 0, 2, 4 give three rows of width 5 with the 1 at the
  indices 0, 2 and 4.
\<close>

theorem discrete_preprocess_one_hot:
  "(0 < n \<and> list_all (\<lambda>x. 0 \<le> trunc x \<and> trunc x < real n) (data obs) \<longrightarrow>
      (\<exists>f. get_preprocess_obs_fn (Discrete n start) = Inr f \<and>
         f obs = Inr \<lparr>dtype = Int64, shape = shape obs @ [n],
                      data = concat (map (\<lambda>x. one_hot_row n (trunc x)) (data obs)),
                      device = ''cpu''\<rparr>))
   \<and> (k < n \<longrightarrow>
        length (one_hot_row n (real k)) = n
        \<and> length (filter (\<lambda>y. y = 1) (one_hot_row n (real k))) = 1
        \<and> (\<forall>j<n. one_hot_row n (real k) ! j = (if j = k then 1 else 0)))"
proof (intro conjI impI)
  assume h: "0 < n \<and> list_all (\<lambda>x. 0 \<le> trunc x \<and> trunc x < real n) (data obs)"
  let ?t = "long (th_as_tensor obs None ''cpu'')"
  have d: "dtype ?t = Int64" by (simp add: long_def)
  have r: "list_all (\<lambda>x. 0 \<le> x \<and> x < real n) (data ?t)"
    using h by (simp add: long_def th_as_tensor_def list_all_iff)
  from one_hot_in_range[OF d _ r] h
  have "one_hot ?t (int n) =
          Inr (?t\<lparr>shape := shape ?t @ [n], data := concat (map (one_hot_row n) (data ?t))\<rparr>)"
    by simp
  then show "\<exists>f. get_preprocess_obs_fn (Discrete n start) = Inr f \<and>
         f obs = Inr \<lparr>dtype = Int64, shape = shape obs @ [n],
                      data = concat (map (\<lambda>x. one_hot_row n (trunc x)) (data obs)),
                      device = ''cpu''\<rparr>"
    by (simp add: long_def th_as_tensor_def comp_def)
next
  assume "k < n"
  then show "length (one_hot_row n (real k)) = n" by (simp add: one_hot_row_length)
next
  assume "k < n"
  then show "length (filter (\<lambda>y. y = 1) (one_hot_row n (real k))) = 1"
    by (rule one_hot_row_count)
next
  assume "k < n"
  then show "\<forall>j<n. one_hot_row n (real k) ! j = (if j = k then 1 else 0)"
    by (simp add: one_hot_row_nth)
qed

theorem discrete_preprocess_one_hot_witness:
  "\<exists>f. get_preprocess_obs_fn (Discrete 5 0) = Inr f \<and>
      f \<lparr>dtype = Int64, shape = [3], data = [0, 2, 4]\<rparr> =
        Inr \<lparr>dtype = Int64, shape = [3, 5],
             data = [1, 0, 0, 0, 0,  0, 0, 1, 0, 0,  0, 0, 0, 0, 1], device = ''cpu''\<rparr>"
  using discrete_preprocess_one_hot
    [of 5 "\<lparr>dtype = Int64, shape = [3], data = [0, 2, 4]\<rparr>" 0 0]
  by (simp add: trunc_def one_hot_row_def upt_rec)

lemma flat_index_bound:
  fixes b j B K :: nat
  assumes "b < B" "j < K"
  shows "b * K + j < B * K"
proof -
  have "b * K + j < Suc b * K" using assms(2) by simp
  also have "\<dots> \<le> B * K" using assms(1) by (intro mult_le_mono1) simp
  finally show ?thesis .
qed

lemma take1_drop: "i < length xs \<Longrightarrow> take (Suc 0) (drop i xs) = [xs ! i]"
  by (simp add: take_Suc_conv_app_nth)

lemma concat_singletons: "concat (map (\<lambda>b. [f b]) bs) = map f bs"
  by (induction bs) simp_all

lemma column_of_batch:
  assumes "length xs = B * K" "j < K"
  shows "concat (map (\<lambda>b. take (Suc 0) (drop (b * K + j) xs)) [0..<B]) =
         map (\<lambda>b. xs ! (b * K + j)) [0..<B]"
proof -
  have "map (\<lambda>b. take (Suc 0) (drop (b * K + j) xs)) [0..<B] =
        map (\<lambda>b. [xs ! (b * K + j)]) [0..<B]"
    using assms by (intro map_cong refl take1_drop) (simp add: flat_index_bound)
  then have "concat (map (\<lambda>b. take (Suc 0) (drop (b * K + j) xs)) [0..<B]) =
             concat (map (\<lambda>b. [xs ! (b * K + j)]) [0..<B])"
    by (rule arg_cong)
  then show ?thesis by (simp only: concat_singletons)
qed

lemma th_split1_matrix:
  assumes "shape t = [B, K]" "0 < K" "length (data t) = B * K"
  shows "th_split1 t =
           Inr (map (\<lambda>j. t\<lparr>shape := [B, 1], data := map (\<lambda>b. data t ! (b * K + j)) [0..<B]\<rparr>)
                  [0..<K])"
proof -
  have "map (\<lambda>j. t\<lparr>shape := [B, 1],
                   data := concat (map (\<lambda>b. take (Suc 0) (drop (b * K + j) (data t))) [0..<B])\<rparr>)
          [0..<K] =
        map (\<lambda>j. t\<lparr>shape := [B, 1], data := map (\<lambda>b. data t ! (b * K + j)) [0..<B]\<rparr>) [0..<K]"
    using assms(3) by (intro map_cong refl) (simp add: column_of_batch)
  then show ?thesis using assms(1,2) by (simp add: th_split1_def)
qed

lemma collect_map:
  "(\<And>x. x \<in> set xs \<Longrightarrow> f x = Inr (g x)) \<Longrightarrow> collect (map f xs) = Inr (map g xs)"
  by (induction xs) simp_all

lemma enumerate_map_upt: "enumerate 0 (map c [0..<K]) = map (\<lambda>j. (j, c j)) [0..<K]"
  by (simp add: enumerate_eq_zip zip_map2 zip_same_conv_map)

lemma take_drop_rows:
  assumes "\<And>y. y \<in> set ys \<Longrightarrow> length (f y) = n" "i < length ys"
  shows "take n (drop (i * n) (concat (map f ys))) = f (ys ! i)"
  using assms
proof (induction ys arbitrary: i)
  case Nil
  then show ?case by simp
next
  case (Cons y ys)
  have ly: "length (f y) = n" using Cons.prems(1) by simp
  show ?case
  proof (cases i)
    case 0
    then show ?thesis using ly by simp
  next
    case (Suc i')
    have "take n (drop (i' * n) (concat (map f ys))) = f (ys ! i')"
      using Cons.prems Suc by (intro Cons.IH) simp_all
    then show ?thesis using Suc ly by simp
  qed
qed

lemma trunc_trunc: "trunc (trunc x) = trunc x"
  by (simp add: trunc_def)

lemma th_cat_last_nonempty:
  "ts \<noteq> [] \<Longrightarrow>
   th_cat_last ts =
     (if list_ex (\<lambda>u. shape u = []) ts then Inl RuntimeError
      else if list_ex (\<lambda>u. butlast (shape u) \<noteq> butlast (shape (hd ts))) ts then Inl RuntimeError
      else
        Inr ((hd ts)\<lparr>shape := butlast (shape (hd ts)) @ [sum_list (map (\<lambda>u. last (shape u)) ts)],
               data := concat (map (\<lambda>i. concat (map (\<lambda>u. take (last (shape u))
                                                         (drop (i * last (shape u)) (data u))) ts))
                                 [0..<prod_list (butlast (shape (hd ts)))])\<rparr>))"
  by (cases ts) (simp_all add: th_cat_last_def)

lemma th_cat_last_rows:
  assumes K: "0 < K" and len: "\<And>b j. b < B \<Longrightarrow> j < K \<Longrightarrow> length (r b j) = n j"
  shows "th_cat_last
           (map (\<lambda>j. \<lparr>dtype = dt, shape = [B, 1, n j],
                      data = concat (map (\<lambda>b. r b j) [0..<B]), device = dev\<rparr>) [0..<K]) =
         Inr \<lparr>dtype = dt, shape = [B, 1, sum_list (map n [0..<K])],
              data = concat (map (\<lambda>b. concat (map (\<lambda>j. r b j) [0..<K])) [0..<B]),
              device = dev\<rparr>"
proof -
  define e where "e = (\<lambda>j. \<lparr>dtype = dt, shape = [B, 1, n j],
                      data = concat (map (\<lambda>b. r b j) [0..<B]), device = dev\<rparr>)"
  define ts where "ts = map e [0..<K]"
  have ne: "ts \<noteq> []" using K by (simp add: ts_def)
  have hd: "hd ts = e 0" using K by (simp add: ts_def hd_map)
  have c1: "\<not> list_ex (\<lambda>u. shape u = []) ts"
    by (simp add: ts_def list_ex_iff e_def)
  have c2: "\<not> list_ex (\<lambda>u. butlast (shape u) \<noteq> butlast (shape (hd ts))) ts"
    by (simp add: hd) (simp add: ts_def list_ex_iff e_def)
  have widths: "sum_list (map (\<lambda>u. last (shape u)) ts) = sum_list (map n [0..<K])"
    by (simp add: ts_def e_def comp_def)
  have rows: "prod_list (butlast (shape (e 0))) = B"
    by (simp add: e_def)
  have row: "take (last (shape (e j))) (drop (i * last (shape (e j))) (data (e j))) = r i j"
    if "i < B" "j < K" for i j
  proof -
    have "take (n j) (drop (i * n j) (concat (map (\<lambda>b. r b j) [0..<B]))) = r ([0..<B] ! i) j"
      using that len by (intro take_drop_rows) simp_all
    then show ?thesis using that by (simp add: e_def)
  qed
  have inner: "concat (map (\<lambda>u. take (last (shape u)) (drop (i * last (shape u)) (data u))) ts) =
               concat (map (\<lambda>j. r i j) [0..<K])" if "i < B" for i
  proof -
    have "map (\<lambda>u. take (last (shape u)) (drop (i * last (shape u)) (data u))) ts =
          map (\<lambda>j. take (last (shape (e j))) (drop (i * last (shape (e j))) (data (e j)))) [0..<K]"
      by (simp add: ts_def comp_def)
    also have "\<dots> = map (\<lambda>j. r i j) [0..<K]"
      using that by (intro map_cong refl row) simp_all
    finally show ?thesis by (rule arg_cong)
  qed
  have "map (\<lambda>i. concat (map (\<lambda>u. take (last (shape u)) (drop (i * last (shape u)) (data u))) ts))
          [0..<B] =
        map (\<lambda>i. concat (map (\<lambda>j. r i j) [0..<K])) [0..<B]"
    by (intro map_cong refl inner) simp
  then have dat: "concat (map (\<lambda>i. concat (map (\<lambda>u. take (last (shape u))
                      (drop (i * last (shape u)) (data u))) ts)) [0..<B]) =
        concat (map (\<lambda>i. concat (map (\<lambda>j. r i j) [0..<K])) [0..<B])"
    by (rule arg_cong)
  have "th_cat_last ts =
          Inr ((e 0)\<lparr>shape := butlast (shape (e 0)) @ [sum_list (map n [0..<K])],
                 data := concat (map (\<lambda>i. concat (map (\<lambda>j. r i j) [0..<K])) [0..<B])\<rparr>)"
    using th_cat_last_nonempty[OF ne] c1 c2 by (simp only: if_False hd widths rows dat)
  then show ?thesis by (simp add: ts_def e_def)
qed

lemma multi_discrete_to_one_hot_result:
  assumes shp: "shape obs = [B, length nvec]"
    and ne: "nvec \<noteq> []"
    and len: "length (data obs) = B * length nvec"
    and pos: "list_all (\<lambda>c. 0 < c) nvec"
    and rng: "\<And>b j. b < B \<Longrightarrow> j < length nvec \<Longrightarrow>
                0 \<le> trunc (data obs ! (b * length nvec + j))
                \<and> trunc (data obs ! (b * length nvec + j)) < real (nvec ! j)"
  shows "multi_discrete_to_one_hot nvec obs =
           Inr \<lparr>dtype = Float32, shape = [B, sum_list nvec],
                data = concat (map (\<lambda>b. concat (map (\<lambda>j. one_hot_row (nvec ! j)
                                 (trunc (data obs ! (b * length nvec + j)))) [0..<length nvec]))
                          [0..<B]),
                device = ''cpu''\<rparr>"
proof -
  define K where "K = length nvec"
  define x where "x = (\<lambda>b j. trunc (data obs ! (b * K + j)))"
  define t where "t = long (th_as_tensor obs None ''cpu'')"
  define chunk where
    "chunk = (\<lambda>j. \<lparr>dtype = Int64, shape = [B, 1], data = map (\<lambda>b. x b j) [0..<B],
                    device = ''cpu''\<rparr>)"
  define enc where
    "enc = (\<lambda>j. \<lparr>dtype = Float32, shape = [B, 1, nvec ! j],
                  data = concat (map (\<lambda>b. one_hot_row (nvec ! j) (x b j)) [0..<B]),
                  device = ''cpu''\<rparr>)"
  have K: "0 < K" using ne by (simp add: K_def)
  have t: "t = \<lparr>dtype = Int64, shape = [B, K], data = map trunc (data obs), device = ''cpu''\<rparr>"
    by (simp add: t_def long_def th_as_tensor_def shp K_def)
  have tlen: "length (data t) = B * K" by (simp add: t len K_def)
  have "map (\<lambda>j. t\<lparr>shape := [B, 1], data := map (\<lambda>b. data t ! (b * K + j)) [0..<B]\<rparr>) [0..<K] =
        map chunk [0..<K]"
  proof (intro map_cong refl)
    fix j assume "j \<in> set [0..<K]"
    then have j: "j < K" by simp
    have "map (\<lambda>b. data t ! (b * K + j)) [0..<B] = map (\<lambda>b. x b j) [0..<B]"
    proof (intro map_cong refl)
      fix b assume "b \<in> set [0..<B]"
      then have "b * K + j < length (data obs)"
        using j by (simp add: len K_def[symmetric] flat_index_bound)
      then show "data t ! (b * K + j) = x b j" by (simp add: t x_def)
    qed
    then show "t\<lparr>shape := [B, 1], data := map (\<lambda>b. data t ! (b * K + j)) [0..<B]\<rparr> = chunk j"
      by (simp add: t chunk_def)
  qed
  with th_split1_matrix[of t B K] K tlen
  have split: "th_split1 t = Inr (map chunk [0..<K])" by (simp add: t)
  have enc: "one_hot (long (chunk j)) (int (nvec ! j)) = Inr (enc j\<lparr>dtype := Int64\<rparr>)"
    if j: "j < K" for j
  proof -
    have d: "dtype (long (chunk j)) = Int64" by (simp add: long_def)
    have p: "0 < nvec ! j" using pos j by (simp add: list_all_length K_def)
    have dat: "data (long (chunk j)) = map (\<lambda>b. x b j) [0..<B]"
      by (simp add: long_def chunk_def x_def trunc_trunc comp_def)
    have r: "list_all (\<lambda>v. 0 \<le> v \<and> v < real (nvec ! j)) (data (long (chunk j)))"
      using rng j by (simp add: dat list_all_iff x_def K_def)
    show ?thesis
      using one_hot_in_range[OF d p r]
      by (simp add: dat enc_def) (simp add: long_def chunk_def comp_def)
  qed
  have "collect
          (map (\<lambda>(idx, chunk).
                  if idx < length nvec then
                    (case one_hot (long chunk) (int (nvec ! idx)) of
                       Inl e \<Rightarrow> Inl e
                     | Inr t \<Rightarrow> Inr (float t))
                  else Inl IndexError)
             (map (\<lambda>j. (j, chunk j)) [0..<K])) = Inr (map enc [0..<K])"
  proof -
    have "collect (map (\<lambda>j. if j < length nvec then
                    (case one_hot (long (chunk j)) (int (nvec ! j)) of
                       Inl e \<Rightarrow> Inl e
                     | Inr t \<Rightarrow> Inr (float t))
                  else Inl IndexError) [0..<K]) = Inr (map enc [0..<K])"
    proof (rule collect_map)
      fix j assume "j \<in> set [0..<K]"
      then have j: "j < K" by simp
      show "(if j < length nvec then
                    (case one_hot (long (chunk j)) (int (nvec ! j)) of
                       Inl e \<Rightarrow> Inl e
                     | Inr t \<Rightarrow> Inr (float t))
                  else Inl IndexError) = Inr (enc j)"
        using j enc[OF j] by (simp add: K_def[symmetric] float_def enc_def)
    qed
    then show ?thesis by (simp add: comp_def)
  qed
  then have coll: "collect
          (map (\<lambda>(idx, chunk).
                  if idx < length nvec then
                    (case one_hot (long chunk) (int (nvec ! idx)) of
                       Inl e \<Rightarrow> Inl e
                     | Inr t \<Rightarrow> Inr (float t))
                  else Inl IndexError)
             (enumerate 0 (map chunk [0..<K]))) = Inr (map enc [0..<K])"
    by (simp only: enumerate_map_upt)
  have cat: "th_cat_last (map enc [0..<K]) =
               Inr \<lparr>dtype = Float32, shape = [B, 1, sum_list nvec],
                    data = concat (map (\<lambda>b. concat (map (\<lambda>j. one_hot_row (nvec ! j) (x b j))
                                     [0..<K])) [0..<B]),
                    device = ''cpu''\<rparr>"
  proof -
    have "map ((!) nvec) [0..<K] = nvec" by (simp add: K_def map_nth)
    then show ?thesis
      using th_cat_last_rows[of K B "\<lambda>b j. one_hot_row (nvec ! j) (x b j)" "(!) nvec" Float32 "''cpu''"] K
      by (simp add: enc_def one_hot_row_length)
  qed
  have "multi_discrete_to_one_hot nvec obs =
          view \<lparr>dtype = Float32, shape = [B, 1, sum_list nvec],
                    data = concat (map (\<lambda>b. concat (map (\<lambda>j. one_hot_row (nvec ! j) (x b j))
                                     [0..<K])) [0..<B]),
                    device = ''cpu''\<rparr> B (sum_list nvec)"
    using split coll cat
    by (simp add: multi_discrete_to_one_hot_def t_def[symmetric] Let_def)
       (simp add: th_as_tensor_def shp)
  then show ?thesis by (simp add: view_def x_def K_def)
qed



lemma wrap_int64_id: "- (2 ^ 63) \<le> x \<Longrightarrow> x < 2 ^ 63 \<Longrightarrow> wrap_int64 x = x"
  by (simp add: wrap_int64_def)

lemma fold_wrap_sum:
  "0 \<le> a \<Longrightarrow> a + int (sum_list xs) < 2 ^ 63 \<Longrightarrow>
   fold (\<lambda>x acc. wrap_int64 (acc + int x)) xs a = a + int (sum_list xs)"
proof (induction xs arbitrary: a)
  case Nil
  then show ?case by simp
next
  case (Cons x xs)
  have w: "wrap_int64 (a + int x) = a + int x"
    using Cons.prems by (intro wrap_int64_id) simp_all
  have "fold (\<lambda>x acc. wrap_int64 (acc + int x)) xs (a + int x) = (a + int x) + int (sum_list xs)"
    using Cons.prems by (intro Cons.IH) simp_all
  then show ?case by (simp add: w)
qed

lemma py_sum_int64_small: "int (sum_list xs) < 2 ^ 63 \<Longrightarrow> py_sum_int64 xs = int (sum_list xs)"
  using fold_wrap_sum[of 0 xs] by (simp add: py_sum_int64_def)

text \<open>
  Claim C10, as amended.  For a \<open>MultiDiscrete(counts)\<close> space whose counts sum to less
  than \<open>2^63\<close>, \<open>get_flattened_obs_dim\<close> returns \<open>sum(counts)\<close>, and this is the width of
  the tensor that the preprocessing function of the same space,
  \<open>_multi_discrete_to_one_hot\<close>, returns on a batch of class indices: the concatenation
  of the one-hot encodings of each row.
\<close>

theorem flattened_dim_is_one_hot_width:
  "(int (sum_list nvec) < 2 ^ 63 \<longrightarrow>
      get_flattened_obs_dim flatdim (MultiDiscrete nvec) = int (sum_list nvec))
   \<and> (int (sum_list nvec) < 2 ^ 63
      \<and> nvec \<noteq> [] \<and> list_all (\<lambda>c. 0 < c) nvec
      \<and> shape obs = [B, length nvec] \<and> length (data obs) = B * length nvec
      \<and> (\<forall>b<B. \<forall>j<length nvec.
             0 \<le> trunc (data obs ! (b * length nvec + j))
             \<and> trunc (data obs ! (b * length nvec + j)) < real (nvec ! j))
      \<longrightarrow>
      get_preprocess_obs_fn (MultiDiscrete nvec) = Inr (multi_discrete_to_one_hot nvec)
      \<and> multi_discrete_to_one_hot nvec obs =
          Inr \<lparr>dtype = Float32,
               shape = [B, nat (get_flattened_obs_dim flatdim (MultiDiscrete nvec))],
               data = concat (map (\<lambda>b. concat (map (\<lambda>j. one_hot_row (nvec ! j)
                                (trunc (data obs ! (b * length nvec + j)))) [0..<length nvec]))
                         [0..<B]),
               device = ''cpu''\<rparr>)"
  using multi_discrete_to_one_hot_result[of obs B nvec] by (simp add: py_sum_int64_small)

theorem flattened_dim_is_one_hot_width_witness:
  "get_flattened_obs_dim (\<lambda>s. 0) (MultiDiscrete [3, 4, 5]) = 12
   \<and> multi_discrete_to_one_hot [3, 4, 5] \<lparr>dtype = Int64, shape = [1, 3], data = [2, 0, 4]\<rparr> =
       Inr \<lparr>dtype = Float32, shape = [1, 12],
            data = [0, 0, 1,  1, 0, 0, 0,  0, 0, 0, 0, 1], device = ''cpu''\<rparr>"
proof -
  have h: "\<forall>b<1. \<forall>j<length [3, 4, 5 :: nat].
          0 \<le> trunc ([2, 0, 4] ! (b * length [3, 4, 5 :: nat] + j))
          \<and> trunc ([2, 0, 4] ! (b * length [3, 4, 5 :: nat] + j)) < real ([3, 4, 5] ! j)"
    by (auto simp: less_Suc_eq numeral_3_eq_3 trunc_def)
  show ?thesis
    using h flattened_dim_is_one_hot_width
      [of "[3, 4, 5]" "\<lambda>s. 0" "\<lparr>dtype = Int64, shape = [1, 3], data = [2, 0, 4]\<rparr>" 1]
    by (simp add: trunc_def one_hot_row_def upt_rec)
qed

text \<open>
  The sum is one of \<open>int64\<close> values: for the counts \<open>2^62\<close> and \<open>2^62\<close> it wraps to
  \<open>-2^63\<close>, which is not their sum.
\<close>

theorem flattened_dim_wraps_counterexample:
  "get_flattened_obs_dim (\<lambda>s. 0) (MultiDiscrete [2 ^ 62, 2 ^ 62]) = - (2 ^ 63)
   \<and> get_flattened_obs_dim (\<lambda>s. 0) (MultiDiscrete [2 ^ 62, 2 ^ 62])
       \<noteq> int (sum_list [2 ^ 62, 2 ^ 62])"
  by (simp add: py_sum_int64_def wrap_int64_def)

section \<open>Properties of the environment adapter and factory\<close>

text \<open>
  Claim C8.  A call of \<open>step\<close> whose action has at least two axes passes the squeeze,
  and when the wrapped vectorised environment of \<open>N\<close> environments (at least one)
  returns \<open>N\<close> rewards and \<open>N\<close> flags of each kind, \<open>step\<close> returns the reward, the
  \<open>terminated\<close> and the \<open>truncated\<close> values as tensors of shape \<open>(N, 1)\<close> and type
  \<open>float32\<close> on the configured device, a flag being 1 when it is true and 0 otherwise,
  and the observation as a tensor on the configured device.
\<close>

theorem step_returns_column_tensors:
  "(1 < length (shape action) \<longrightarrow> (\<exists>a. squeeze action 1 = Inr a))
   \<and> (squeeze action 1 = Inr a
      \<and> env_step (env self) (numpy a) = Inr (obs, reward, terminated, truncated, info, env')
      \<and> 0 < N \<and> shape reward = [N] \<and> length terminated = N \<and> length truncated = N
      \<longrightarrow>
      step env_step self action =
        Inr ((\<lparr>dtype = dtype obs, shape = shape obs, data = data obs, device = env_device self\<rparr>,
              \<lparr>dtype = Float32, shape = [N, 1], data = data reward, device = env_device self\<rparr>,
              \<lparr>dtype = Float32, shape = [N, 1],
               data = map (\<lambda>f. if f then 1 else 0) terminated, device = env_device self\<rparr>,
              \<lparr>dtype = Float32, shape = [N, 1],
               data = map (\<lambda>f. if f then 1 else 0) truncated, device = env_device self\<rparr>,
              info),
             self\<lparr>env := env'\<rparr>))"
  by (auto simp: step_def squeeze_def unsqueeze_def th_as_tensor_def flags_tensor_def)

theorem step_returns_column_tensors_witness:
  "step (\<lambda>e a. Inr (\<lparr>dtype = UInt8, shape = [2, 3], data = [1, 2, 3, 4, 5, 6]\<rparr>,
                     \<lparr>dtype = Float64, shape = [2], data = [1 / 2, 0]\<rparr>,
                     [True, False], [False, False], (), Suc e))
        \<lparr>env = 0, env_device = ''cuda:0'', num_envs = 2\<rparr>
        \<lparr>dtype = Int64, shape = [2, 1], data = [3, 1], device = ''cuda:0''\<rparr> =
     Inr ((\<lparr>dtype = UInt8, shape = [2, 3], data = [1, 2, 3, 4, 5, 6], device = ''cuda:0''\<rparr>,
           \<lparr>dtype = Float32, shape = [2, 1], data = [1 / 2, 0], device = ''cuda:0''\<rparr>,
           \<lparr>dtype = Float32, shape = [2, 1], data = [1, 0], device = ''cuda:0''\<rparr>,
           \<lparr>dtype = Float32, shape = [2, 1], data = [0, 0], device = ''cuda:0''\<rparr>,
           ()),
          \<lparr>env = 1, env_device = ''cuda:0'', num_envs = 2\<rparr>)"
  using step_returns_column_tensors
    [of "\<lparr>dtype = Int64, shape = [2, 1], data = [3, 1], device = ''cuda:0''\<rparr>"
        "\<lparr>dtype = Int64, shape = [2], data = [3, 1], device = ''cuda:0''\<rparr>"
        "\<lambda>e a. Inr (\<lparr>dtype = UInt8, shape = [2, 3], data = [1, 2, 3, 4, 5, 6]\<rparr>,
                     \<lparr>dtype = Float64, shape = [2], data = [1 / 2, 0]\<rparr>,
                     [True, False], [False, False], (), Suc e)"
        "\<lparr>env = 0, env_device = ''cuda:0'', num_envs = 2\<rparr>"
        "\<lparr>dtype = UInt8, shape = [2, 3], data = [1, 2, 3, 4, 5, 6]\<rparr>"
        "\<lparr>dtype = Float64, shape = [2], data = [1 / 2, 0]\<rparr>"
        "[True, False]" "[False, False]" "()" 1 2]
  by (simp add: squeeze_def)

lemma make_env_built:
  assumes "0 \<le> seed"
    and "gym_make api env_id = Inr made"
    and "fully_observable \<longrightarrow>
           fully_obs_wrapper api made = Inr full \<and> minigrid2image_init api full = Inr adapted
           \<and> frame_stack_wrapper api adapted frame_stack = Inr wrapped"
    and "\<not> fully_observable \<longrightarrow> flat_obs_wrapper api made = Inr wrapped"
  shows "make_env api fully_observable frame_stack env_id seed () =
           Inr (wrapped\<lparr>action_space_seed := Some seed, observation_space_seed := Some seed\<rparr>)"
  using assms by (cases fully_observable) (simp_all add: make_env_def seed_space_def)

lemma make_env_negative_seed:
  assumes "seed < 0"
    and "gym_make api env_id = Inr made"
    and "fully_observable \<longrightarrow>
           fully_obs_wrapper api made = Inr full \<and> minigrid2image_init api full = Inr adapted
           \<and> frame_stack_wrapper api adapted frame_stack = Inr wrapped"
    and "\<not> fully_observable \<longrightarrow> flat_obs_wrapper api made = Inr wrapped"
  shows "make_env api fully_observable frame_stack env_id seed () = Inl GymError"
  using assms by (cases fully_observable) (simp_all add: make_env_def seed_space_def)

lemma collect_first_error: "f x = Inl e \<Longrightarrow> collect (map f (x # xs)) = Inl e"
  by simp

lemma make_minigrid_env_first_thunk_raises:
  assumes "0 < N"
    and "make_env api fully_observable frame_stack env_id seed () = Inl e"
  shows "make_minigrid_env api env_id (int N) fully_observable seed frame_stack dev = Inl e"
proof -
  have "py_range (int N) = 0 # map int [1..<N]"
    using assms(1) by (simp add: py_range_def upt_conv_Cons)
  then show ?thesis
    using assms(2) by (simp add: make_minigrid_env_def sync_vector_env_def)
qed

lemma make_minigrid_env_unregistered:
  assumes "0 < N" and "gym_make api env_id = Inl e"
  shows "make_minigrid_env api env_id (int N) fully_observable seed frame_stack dev = Inl e"
  using assms(1)
  by (rule make_minigrid_env_first_thunk_raises) (simp add: make_env_def assms(2))

lemma make_minigrid_env_no_envs:
  "n_envs \<le> 0 \<Longrightarrow>
   make_minigrid_env api env_id n_envs fully_observable seed frame_stack dev = Inl IndexError"
  by (simp add: make_minigrid_env_def sync_vector_env_def py_range_def)

lemma sample_minigrid2image:
  "minigrid2image_init sample_api sample_env =
     Inr \<lparr>env_observation_space =
             Box \<lparr>box_shape = [3, 7, 7], low = replicate 147 0, high = replicate 147 255,
                  box_dtype = UInt8\<rparr>,
          env_action_space = Discrete 7 0,
          observation_space_seed = None,
          action_space_seed = None\<rparr>"
  by (simp add: minigrid2image_init_def sample_api_def sample_env_def)

text \<open>
  Claim C9, as amended.  Called with an environment count \<open>N \<ge> 1\<close> and a seed
  \<open>s \<ge> 0\<close>, and when \<open>gym.make\<close>, the wrappers and \<open>th.device\<close> do not raise,
  \<open>make_minigrid_env\<close> builds \<open>N\<close> environments; the action space and the observation
  space of environment \<open>i\<close> are seeded with \<open>s + i\<close>; each environment is
  \<open>gym.make(env_id)\<close> wrapped, when \<open>fully_observable\<close> is set, in \<open>FullyObsWrapper\<close>,
  \<open>Minigrid2Image\<close> and \<open>FrameStack\<close> (in this order), and otherwise in
  \<open>FlatObsWrapper\<close>.
\<close>

theorem make_minigrid_env_seeds_and_wrappers:
  "0 < N \<and> 0 \<le> seed
   \<and> gym_make api env_id = Inr made
   \<and> (fully_observable \<longrightarrow>
         fully_obs_wrapper api made = Inr full \<and> minigrid2image_init api full = Inr adapted
         \<and> frame_stack_wrapper api adapted frame_stack = Inr wrapped)
   \<and> (\<not> fully_observable \<longrightarrow> flat_obs_wrapper api made = Inr wrapped)
   \<and> th_device api dev = Inr d
   \<longrightarrow>
   (\<exists>w. make_minigrid_env api env_id (int N) fully_observable seed frame_stack dev = Inr w
      \<and> num_envs w = N \<and> env_device w = d \<and> length (envs (env w)) = N
      \<and> (\<forall>i<N. envs (env w) ! i =
            wrapped\<lparr>action_space_seed := Some (seed + int i),
                    observation_space_seed := Some (seed + int i)\<rparr>))"
proof (intro impI)
  assume h: "0 < N \<and> 0 \<le> seed
   \<and> gym_make api env_id = Inr made
   \<and> (fully_observable \<longrightarrow>
         fully_obs_wrapper api made = Inr full \<and> minigrid2image_init api full = Inr adapted
         \<and> frame_stack_wrapper api adapted frame_stack = Inr wrapped)
   \<and> (\<not> fully_observable \<longrightarrow> flat_obs_wrapper api made = Inr wrapped)
   \<and> th_device api dev = Inr d"
  let ?g = "\<lambda>i. wrapped\<lparr>action_space_seed := Some (seed + int i),
                          observation_space_seed := Some (seed + int i)\<rparr>"
  have each: "make_env api fully_observable frame_stack env_id (seed + int i) () = Inr (?g i)"
    for i
    using h make_env_built
            [of "seed + int i" api env_id made fully_observable full adapted frame_stack wrapped]
    by simp
  have "collect (map (\<lambda>i. make_env api fully_observable frame_stack env_id (seed + int i) ())
                   [0..<N]) = Inr (map ?g [0..<N])"
    by (rule collect_map) (simp add: each)
  then have built: "sync_vector_env
           (map (\<lambda>i. make_env api fully_observable frame_stack env_id (seed + i))
              (py_range (int N))) = Inr (SyncVectorEnv (map ?g [0..<N]))"
    using h by (simp add: sync_vector_env_def py_range_def comp_def)
  have "make_minigrid_env api env_id (int N) fully_observable seed frame_stack dev =
          Inr \<lparr>env = RecordEpisodeStatistics (SyncVectorEnv (map ?g [0..<N])),
               env_device = d, num_envs = N\<rparr>"
    using h built by (simp add: make_minigrid_env_def torch_vec_env_wrapper_init_def)
  then show "\<exists>w. make_minigrid_env api env_id (int N) fully_observable seed frame_stack dev = Inr w
      \<and> num_envs w = N \<and> env_device w = d \<and> length (envs (env w)) = N
      \<and> (\<forall>i<N. envs (env w) ! i = ?g i)"
    by simp
qed

theorem make_minigrid_env_seeds_and_wrappers_witness:
  "\<exists>w. make_minigrid_env sample_api ''MiniGrid-Empty-5x5-v0'' 2 True 7 4 ''cpu'' = Inr w
      \<and> num_envs w = 2 \<and> env_device w = ''cpu'' \<and> length (envs (env w)) = 2
      \<and> envs (env w) ! 0 =
          \<lparr>env_observation_space =
             Box \<lparr>box_shape = [3, 7, 7], low = replicate 147 0, high = replicate 147 255,
                  box_dtype = UInt8\<rparr>,
           env_action_space = Discrete 7 0,
           observation_space_seed = Some 7,
           action_space_seed = Some 7\<rparr>
      \<and> envs (env w) ! 1 =
          \<lparr>env_observation_space =
             Box \<lparr>box_shape = [3, 7, 7], low = replicate 147 0, high = replicate 147 255,
                  box_dtype = UInt8\<rparr>,
           env_action_space = Discrete 7 0,
           observation_space_seed = Some 8,
           action_space_seed = Some 8\<rparr>"
proof -
  let ?adapted = "\<lparr>env_observation_space =
             Box \<lparr>box_shape = [3, 7, 7], low = replicate 147 0, high = replicate 147 255,
                  box_dtype = UInt8\<rparr>,
           env_action_space = Discrete 7 0,
           observation_space_seed = None,
           action_space_seed = None\<rparr>"
  have hyp: "0 < (2::nat) \<and> 0 \<le> (7::int)
     \<and> gym_make sample_api ''MiniGrid-Empty-5x5-v0'' = Inr sample_env
     \<and> (True \<longrightarrow>
           fully_obs_wrapper sample_api sample_env = Inr sample_env
           \<and> minigrid2image_init sample_api sample_env = Inr ?adapted
           \<and> frame_stack_wrapper sample_api ?adapted 4 = Inr ?adapted)
     \<and> (\<not> True \<longrightarrow> flat_obs_wrapper sample_api sample_env = Inr ?adapted)
     \<and> th_device sample_api ''cpu'' = Inr ''cpu''"
    by (simp add: sample_minigrid2image) (simp add: sample_api_def)
  from make_minigrid_env_seeds_and_wrappers
         [of 2 7 sample_api "''MiniGrid-Empty-5x5-v0''" sample_env True sample_env ?adapted 4
             ?adapted "''cpu''" "''cpu''"] hyp
  obtain w where w: "make_minigrid_env sample_api ''MiniGrid-Empty-5x5-v0'' 2 True 7 4 ''cpu'' = Inr w"
    and n: "num_envs w = 2" "env_device w = ''cpu''" "length (envs (env w)) = 2"
    and each: "\<forall>i<2. envs (env w) ! i =
            ?adapted\<lparr>action_space_seed := Some (7 + int i),
                      observation_space_seed := Some (7 + int i)\<rparr>"
    by auto
  from each[rule_format, of 0] have e0: "envs (env w) ! 0 =
      ?adapted\<lparr>action_space_seed := Some 7, observation_space_seed := Some 7\<rparr>" by simp
  from each[rule_format, of 1] have e1: "envs (env w) ! 1 =
      ?adapted\<lparr>action_space_seed := Some 8, observation_space_seed := Some 8\<rparr>" by simp
  show ?thesis using w n e0 e1 by simp
qed

text \<open>
  With the seed \<open>-3\<close> the first thunk builds its environment and then raises when it
  seeds the action space: no environment is returned.
\<close>

theorem make_minigrid_env_negative_seed_counterexample:
  "make_minigrid_env sample_api ''MiniGrid-Empty-5x5-v0'' 2 True (- 3) 4 ''cpu'' = Inl GymError"
proof -
  let ?adapted = "\<lparr>env_observation_space =
             Box \<lparr>box_shape = [3, 7, 7], low = replicate 147 0, high = replicate 147 255,
                  box_dtype = UInt8\<rparr>,
           env_action_space = Discrete 7 0,
           observation_space_seed = None,
           action_space_seed = None\<rparr>"
  have made: "gym_make sample_api ''MiniGrid-Empty-5x5-v0'' = Inr sample_env"
    by (simp add: sample_api_def)
  have wraps: "True \<longrightarrow>
           fully_obs_wrapper sample_api sample_env = Inr sample_env
           \<and> minigrid2image_init sample_api sample_env = Inr ?adapted
           \<and> frame_stack_wrapper sample_api ?adapted 4 = Inr ?adapted"
    by (simp add: sample_minigrid2image) (simp add: sample_api_def)
  have first: "make_env sample_api True 4 ''MiniGrid-Empty-5x5-v0'' (- 3) () = Inl GymError"
    using make_env_negative_seed
            [of "- 3" sample_api "''MiniGrid-Empty-5x5-v0''" sample_env True sample_env
                ?adapted 4 ?adapted] made wraps
    by simp
  have "py_range 2 = [0, 1]" by (simp add: py_range_def upt_rec)
  then show ?thesis
    using first by (simp add: make_minigrid_env_def sync_vector_env_def)
qed

end
